theory Spec2Isabelle
  imports Complex_Main "HOL-Library.Word"
begin

section \<open>OSINT SOC toolkit: the port scanner and the geolocation lookup\<close>

text \<open>
  A shallow embedding of \<^verbatim>\<open>osint.py\<close>: the port table \<^verbatim>\<open>PUERTOS_COMUNES\<close>, the
  single-port probe \<^verbatim>\<open>escan_puerto\<close>, the scanner \<^verbatim>\<open>escanear_puertos_comunes\<close> and
  the geolocation lookup \<^verbatim>\<open>geo_ip\<close>.

  Python values are modelled as follows. An \<^verbatim>\<open>int\<close> is an \<^typ>\<open>int\<close>. A \<^verbatim>\<open>bytes\<close>
  object is a list of 8-bit words. A \<^verbatim>\<open>str\<close> that comes from the network is a list of
  Unicode code points (\<open>ustring\<close>); the ASCII literals of the source are HOL strings.
  An exception is a value of \<open>pyexc\<close>, and a computation that may raise and that acts on
  the outside world is a function from the log of its effects so far to a result
  (\<open>Inl\<close> the exception raised, \<open>Inr\<close> the value returned) and the log afterwards.
\<close>

subsection \<open>Values, exceptions and effects\<close>

type_synonym byte = "8 word"

type_synonym ustring = "nat list"

definition ascii :: "string \<Rightarrow> ustring" where
  "ascii s = map of_char s"

datatype pyexc =
    OSError
  | TimeoutError
  | GaiError
  | OverflowError
  | ValueError
  | AttributeError
  | JSONDecodeError
  | RequestException
  | UnicodeEncodeError
  | KeyboardInterrupt

type_synonym ('s, 'a) io = "'s \<Rightarrow> (pyexc + 'a) \<times> 's"

definition ret :: "'a \<Rightarrow> ('s, 'a) io" where
  "ret x = (\<lambda>s. (Inr x, s))"

definition raise :: "pyexc \<Rightarrow> ('s, 'a) io" where
  "raise e = (\<lambda>s. (Inl e, s))"

definition bind_io :: "('s, 'a) io \<Rightarrow> ('a \<Rightarrow> ('s, 'b) io) \<Rightarrow> ('s, 'b) io" where
  "bind_io m f = (\<lambda>s. case m s of (Inl e, s') \<Rightarrow> (Inl e, s') | (Inr x, s') \<Rightarrow> f x s')"

text \<open>
  \<^verbatim>\<open>try: m except: h\<close> with a bare \<^verbatim>\<open>except\<close>: every exception, of whatever class, is
  caught and the handler runs in the state the body left behind.
\<close>

definition try_except :: "('s, 'a) io \<Rightarrow> ('s, 'a) io \<Rightarrow> ('s, 'a) io" where
  "try_except m h = (\<lambda>s. case m s of (Inl e, s') \<Rightarrow> h s' | (Inr x, s') \<Rightarrow> (Inr x, s'))"

text \<open>
  \<^verbatim>\<open>try: m except Exception as e: h e\<close>: \<^verbatim>\<open>KeyboardInterrupt\<close> is not an
  \<^verbatim>\<open>Exception\<close> and passes through.
\<close>

definition try_except_Exception :: "('s, 'a) io \<Rightarrow> (pyexc \<Rightarrow> ('s, 'a) io) \<Rightarrow> ('s, 'a) io" where
  "try_except_Exception m h =
     (\<lambda>s. case m s of
        (Inl e, s') \<Rightarrow> (if e = KeyboardInterrupt then (Inl e, s') else h e s')
      | (Inr x, s') \<Rightarrow> (Inr x, s'))"

definition emit :: "'e \<Rightarrow> ('e list, unit) io" where
  "emit ev = (\<lambda>s. (Inr (), s @ [ev]))"

subsection \<open>The port table\<close>

text \<open>The dictionary literal, as its items in insertion order.\<close>

definition PUERTOS_COMUNES :: "(int \<times> string) list" where
  "PUERTOS_COMUNES =
    [(21, ''FTP''),
     (22, ''SSH''),
     (23, ''Telnet''),
     (25, ''SMTP''),
     (53, ''DNS''),
     (80, ''HTTP''),
     (110, ''POP3''),
     (111, ''RPC''),
     (135, ''RPC''),
     (139, ''NetBIOS''),
     (143, ''IMAP''),
     (443, ''HTTPS''),
     (445, ''SMB''),
     (993, ''IMAPS''),
     (995, ''POP3S''),
     (1723, ''PPTP''),
     (3306, ''MySQL''),
     (3389, ''RDP''),
     (5432, ''PostgreSQL''),
     (5900, ''VNC''),
     (6379, ''Redis''),
     (8080, ''HTTP-Alt''),
     (8443, ''HTTPS-Alt'')]"

text \<open>\<^verbatim>\<open>PUERTOS_COMUNES.keys()\<close> and \<^verbatim>\<open>PUERTOS_COMUNES.get(puerto, 'desconocido')\<close>.\<close>

definition puertos_keys :: "int list" where
  "puertos_keys = map fst PUERTOS_COMUNES"

definition servicio_de :: "int \<Rightarrow> string" where
  "servicio_de puerto =
     (case map_of PUERTOS_COMUNES puerto of None \<Rightarrow> ''desconocido'' | Some s \<Rightarrow> s)"

subsection \<open>Decoding the banner\<close>

text \<open>
  \<^verbatim>\<open>bytes.decode('utf-8', errors='ignore')\<close>. The decoder accepts the well-formed
  sequences of UTF-8 only (no overlong forms, no surrogates, nothing above U+10FFFF).
  At an ill-formed sequence it drops the bytes read so far that cannot start a character
  (the lead byte alone, or the lead byte and the continuation bytes already accepted) and
  goes on at the next byte; a sequence cut short by the end of the data is dropped whole.
\<close>

definition is_cont :: "byte \<Rightarrow> bool" where
  "is_cont b \<longleftrightarrow> 0x80 \<le> b \<and> b < 0xC0"

definition cp2 :: "byte \<Rightarrow> byte \<Rightarrow> nat" where
  "cp2 b1 b2 = (unat b1 mod 32) * 64 + unat b2 mod 64"

definition cp3 :: "byte \<Rightarrow> byte \<Rightarrow> byte \<Rightarrow> nat" where
  "cp3 b1 b2 b3 = ((unat b1 mod 16) * 64 + unat b2 mod 64) * 64 + unat b3 mod 64"

definition cp4 :: "byte \<Rightarrow> byte \<Rightarrow> byte \<Rightarrow> byte \<Rightarrow> nat" where
  "cp4 b1 b2 b3 b4 =
     (((unat b1 mod 8) * 64 + unat b2 mod 64) * 64 + unat b3 mod 64) * 64 + unat b4 mod 64"

definition bad_second :: "byte \<Rightarrow> byte \<Rightarrow> bool" where
  "bad_second b1 b2 \<longleftrightarrow>
     \<not> is_cont b2
     \<or> (b1 = 0xE0 \<and> b2 < 0xA0) \<or> (b1 = 0xED \<and> 0xA0 \<le> b2)
     \<or> (b1 = 0xF0 \<and> b2 < 0x90) \<or> (b1 = 0xF4 \<and> 0x90 \<le> b2)"

fun utf8_decode_ignore :: "byte list \<Rightarrow> ustring" where
  "utf8_decode_ignore [] = []"
| "utf8_decode_ignore [b1] = (if b1 < 0x80 then [unat b1] else [])"
| "utf8_decode_ignore [b1, b2] =
     (if b1 < 0x80 then unat b1 # utf8_decode_ignore [b2]
      else if b1 < 0xC2 then utf8_decode_ignore [b2]
      else if b1 < 0xE0 then (if is_cont b2 then [cp2 b1 b2] else utf8_decode_ignore [b2])
      else if b1 < 0xF5 then (if bad_second b1 b2 then utf8_decode_ignore [b2] else [])
      else utf8_decode_ignore [b2])"
| "utf8_decode_ignore [b1, b2, b3] =
     (if b1 < 0x80 then unat b1 # utf8_decode_ignore [b2, b3]
      else if b1 < 0xC2 then utf8_decode_ignore [b2, b3]
      else if b1 < 0xE0 then
        (if is_cont b2 then cp2 b1 b2 # utf8_decode_ignore [b3]
         else utf8_decode_ignore [b2, b3])
      else if b1 < 0xF0 then
        (if bad_second b1 b2 then utf8_decode_ignore [b2, b3]
         else if is_cont b3 then [cp3 b1 b2 b3]
         else utf8_decode_ignore [b3])
      else if b1 < 0xF5 then
        (if bad_second b1 b2 then utf8_decode_ignore [b2, b3]
         else if is_cont b3 then []
         else utf8_decode_ignore [b3])
      else utf8_decode_ignore [b2, b3])"
| "utf8_decode_ignore (b1 # b2 # b3 # b4 # bs) =
     (if b1 < 0x80 then unat b1 # utf8_decode_ignore (b2 # b3 # b4 # bs)
      else if b1 < 0xC2 then utf8_decode_ignore (b2 # b3 # b4 # bs)
      else if b1 < 0xE0 then
        (if is_cont b2 then cp2 b1 b2 # utf8_decode_ignore (b3 # b4 # bs)
         else utf8_decode_ignore (b2 # b3 # b4 # bs))
      else if b1 < 0xF0 then
        (if bad_second b1 b2 then utf8_decode_ignore (b2 # b3 # b4 # bs)
         else if is_cont b3 then cp3 b1 b2 b3 # utf8_decode_ignore (b4 # bs)
         else utf8_decode_ignore (b3 # b4 # bs))
      else if b1 < 0xF5 then
        (if bad_second b1 b2 then utf8_decode_ignore (b2 # b3 # b4 # bs)
         else if \<not> is_cont b3 then utf8_decode_ignore (b3 # b4 # bs)
         else if is_cont b4 then cp4 b1 b2 b3 b4 # utf8_decode_ignore bs
         else utf8_decode_ignore (b4 # bs))
      else utf8_decode_ignore (b2 # b3 # b4 # bs))"

subsection \<open>Sockets\<close>

text \<open>
  The probe uses two socket objects, held in the variables \<^verbatim>\<open>sock\<close> and
  \<^verbatim>\<open>banner_sock\<close>. What the network does to the calls made on them is given by an
  \<open>endpoint\<close>, one for each host and port: for every call that can fail, either the
  exception it raises or the value it returns. The calls made are logged as events.
  \<^verbatim>\<open>close\<close> is taken not to fail.
\<close>

datatype sock_id = Sock | Banner_sock

datatype event =
    Created sock_id
  | Settimeout sock_id int
  | Connect_ex sock_id string int
  | Connect sock_id string int
  | Send sock_id "byte list"
  | Recv sock_id nat
  | Closed sock_id

record endpoint =
  socket_r :: "sock_id \<Rightarrow> pyexc option"
  connect_ex_r :: "pyexc + int"
  connect_r :: "pyexc option"
  send_r :: "pyexc + nat"
  recv_r :: "pyexc + byte list"

type_synonym net = "string \<Rightarrow> int \<Rightarrow> endpoint"

text \<open>\<^verbatim>\<open>socket.socket(socket.AF_INET, socket.SOCK_STREAM)\<close>\<close>

definition socket_new :: "endpoint \<Rightarrow> sock_id \<Rightarrow> (event list, unit) io" where
  "socket_new ep s = (case socket_r ep s of Some e \<Rightarrow> raise e | None \<Rightarrow> emit (Created s))"

text \<open>
  \<^verbatim>\<open>s.settimeout(t)\<close> with an integer number of seconds. The number is first converted
  to the 64-bit count of nanoseconds the socket keeps: beyond 9223372036 seconds, either
  way, that is an \<^verbatim>\<open>OverflowError\<close>. A negative timeout that passes the conversion is
  a \<^verbatim>\<open>ValueError\<close>.
\<close>

definition timeout_max :: int where
  "timeout_max = 9223372036"

definition settimeout :: "sock_id \<Rightarrow> int \<Rightarrow> (event list, unit) io" where
  "settimeout s t =
     (if t < - timeout_max \<or> timeout_max < t then raise OverflowError
      else if t < 0 then raise ValueError
      else emit (Settimeout s t))"

text \<open>
  \<^verbatim>\<open>s.connect_ex((ip, puerto))\<close>: a port outside 0..65535 is an \<^verbatim>\<open>OverflowError\<close>
  before anything is sent; otherwise the call returns an error code (0 when connected)
  or raises (name resolution, for one).
\<close>

definition sock_connect_ex :: "endpoint \<Rightarrow> sock_id \<Rightarrow> string \<Rightarrow> int \<Rightarrow> (event list, int) io" where
  "sock_connect_ex ep s ip puerto =
     (if puerto < 0 \<or> 65535 < puerto then raise OverflowError
      else bind_io (emit (Connect_ex s ip puerto))
             (\<lambda>_. case connect_ex_r ep of Inl e \<Rightarrow> raise e | Inr code \<Rightarrow> ret code))"

text \<open>\<^verbatim>\<open>s.connect((ip, puerto))\<close>\<close>

definition sock_connect :: "endpoint \<Rightarrow> sock_id \<Rightarrow> string \<Rightarrow> int \<Rightarrow> (event list, unit) io" where
  "sock_connect ep s ip puerto =
     (if puerto < 0 \<or> 65535 < puerto then raise OverflowError
      else bind_io (emit (Connect s ip puerto))
             (\<lambda>_. case connect_r ep of Some e \<Rightarrow> raise e | None \<Rightarrow> ret ()))"

text \<open>\<^verbatim>\<open>s.send(data)\<close>: the number of bytes sent, or an exception.\<close>

definition sock_send :: "endpoint \<Rightarrow> sock_id \<Rightarrow> byte list \<Rightarrow> (event list, nat) io" where
  "sock_send ep s payload =
     bind_io (emit (Send s payload))
       (\<lambda>_. case send_r ep of Inl e \<Rightarrow> raise e | Inr n \<Rightarrow> ret n)"

text \<open>\<^verbatim>\<open>s.recv(n)\<close>: at most \<open>n\<close> of the bytes the peer has sent, or an exception.\<close>

definition sock_recv :: "endpoint \<Rightarrow> sock_id \<Rightarrow> nat \<Rightarrow> (event list, byte list) io" where
  "sock_recv ep s n =
     bind_io (emit (Recv s n))
       (\<lambda>_. case recv_r ep of Inl e \<Rightarrow> raise e | Inr data \<Rightarrow> ret (take n data))"

text \<open>\<^verbatim>\<open>s.close()\<close>\<close>

definition sock_close :: "sock_id \<Rightarrow> (event list, unit) io" where
  "sock_close s = emit (Closed s)"

subsection \<open>The single-port probe\<close>

record port_result =
  puerto :: int
  estado :: string
  servicio :: string
  banner :: ustring

text \<open>The bytes literal \<^verbatim>\<open>b"HEAD / HTTP/1.0\r\n\r\n"\<close>.\<close>

definition probe_payload :: "byte list" where
  "probe_payload =
     map of_char ''HEAD / HTTP/1.0'' @ [0x0D, 0x0A, 0x0D, 0x0A]"

definition no_disponible :: ustring where
  "no_disponible = ascii ''No disponible''"

text \<open>The body of the inner \<^verbatim>\<open>try\<close>: the value bound to \<^verbatim>\<open>banner\<close>.\<close>

definition banner_try :: "endpoint \<Rightarrow> string \<Rightarrow> int \<Rightarrow> (event list, ustring) io" where
  "banner_try ep ip p =
     bind_io (socket_new ep Banner_sock) (\<lambda>_.
     bind_io (settimeout Banner_sock 2) (\<lambda>_.
     bind_io (sock_connect ep Banner_sock ip p) (\<lambda>_.
     bind_io (sock_send ep Banner_sock probe_payload) (\<lambda>_.
     bind_io (sock_recv ep Banner_sock 1024) (\<lambda>data.
     bind_io (ret (take 100 (utf8_decode_ignore data))) (\<lambda>banner.
     bind_io (sock_close Banner_sock) (\<lambda>_.
     ret banner)))))))"

text \<open>The body of the outer \<^verbatim>\<open>try\<close>.\<close>

definition escan_try :: "endpoint \<Rightarrow> string \<Rightarrow> int \<Rightarrow> int \<Rightarrow> (event list, port_result option) io" where
  "escan_try ep ip p timeout =
     bind_io (socket_new ep Sock) (\<lambda>_.
     bind_io (settimeout Sock timeout) (\<lambda>_.
     bind_io (sock_connect_ex ep Sock ip p) (\<lambda>resultado.
     bind_io (sock_close Sock) (\<lambda>_.
     if resultado = 0 then
       bind_io (try_except (banner_try ep ip p) (ret no_disponible)) (\<lambda>banner.
       ret (Some \<lparr>puerto = p, estado = ''abierto'', servicio = servicio_de p,
                  banner = banner\<rparr>))
     else ret None))))"

definition escan_puerto :: "net \<Rightarrow> string \<Rightarrow> int \<Rightarrow> int \<Rightarrow> (event list, port_result option) io" where
  "escan_puerto nw ip p timeout = try_except (escan_try (nw ip p) ip p timeout) (ret None)"

text \<open>What a caller sees of a probe started with an empty log: its outcome and its effects.\<close>

definition probe_outcome :: "net \<Rightarrow> string \<Rightarrow> int \<Rightarrow> int \<Rightarrow> pyexc + port_result option" where
  "probe_outcome nw ip p timeout = fst (escan_puerto nw ip p timeout [])"

definition probe_trace :: "net \<Rightarrow> string \<Rightarrow> int \<Rightarrow> int \<Rightarrow> event list" where
  "probe_trace nw ip p timeout = snd (escan_puerto nw ip p timeout [])"

text \<open>
  The first connect: the call was made (the socket was created, the timeout and the port
  were accepted) and returned 0.
\<close>

definition connect_succeeds :: "net \<Rightarrow> string \<Rightarrow> int \<Rightarrow> int \<Rightarrow> bool" where
  "connect_succeeds nw ip p timeout \<longleftrightarrow>
     socket_r (nw ip p) Sock = None \<and> 0 \<le> timeout \<and> timeout \<le> timeout_max
     \<and> 0 \<le> p \<and> p \<le> 65535 \<and> connect_ex_r (nw ip p) = Inr 0"

text \<open>The banner phase: every call of the inner \<^verbatim>\<open>try\<close> returns.\<close>

definition banner_read_ok :: "endpoint \<Rightarrow> bool" where
  "banner_read_ok ep \<longleftrightarrow>
     socket_r ep Banner_sock = None \<and> connect_r ep = None \<and> \<not> isl (send_r ep) \<and> \<not> isl (recv_r ep)"

text \<open>The bytes \<^verbatim>\<open>recv(1024)\<close> hands to the probe.\<close>

definition received :: "endpoint \<Rightarrow> byte list" where
  "received ep = (case recv_r ep of Inl e \<Rightarrow> [] | Inr data \<Rightarrow> take 1024 data)"

text \<open>The sockets of a log that were created and not closed.\<close>

definition left_open :: "event list \<Rightarrow> sock_id list" where
  "left_open tr = filter (\<lambda>s. Created s \<in> set tr \<and> Closed s \<notin> set tr) [Sock, Banner_sock]"

text \<open>The size in bytes of a string of code points, encoded in UTF-8.\<close>

definition utf8_size :: "ustring \<Rightarrow> nat" where
  "utf8_size cs =
     sum_list (map (\<lambda>c. if c < 0x80 then 1 else if c < 0x800 then 2
                          else if c < 0x10000 then 3 else 4) cs)"

subsection \<open>Console output\<close>

text \<open>
  A \<^verbatim>\<open>print\<close> writes a line to the console; the lines are kept by what they report,
  not by their text. The decoded body of a web answer is a \<open>json\<close> value; a dictionary
  is the list of its items, whose keys are pairwise different.
\<close>

datatype json =
    JNull
  | JBool bool
  | JNum rat
  | JStr ustring
  | JList "json list"
  | JDict "(ustring \<times> json) list"

datatype console =
    Scan_start string
  | Port_open int string
  | Open_count nat
  | Geo_start string
  | Geo_ok
  | Geo_pais json
  | Geo_ciudad json
  | Geo_isp json
  | Geo_error json
  | Geo_exception pyexc

text \<open>
  Standard output is taken to be UTF-8 with the strict error handler, as the fixed text
  of the lines, which is not ASCII, needs. Every string of Unicode scalar values can then
  be written, and a lone surrogate (U+D800 to U+DFFF) cannot: \<^verbatim>\<open>print\<close> raises
  \<^verbatim>\<open>UnicodeEncodeError\<close>. A format field \<^verbatim>\<open>{v}\<close> puts a string \<open>v\<close> into the line
  as it is; any other value is written through its \<^verbatim>\<open>repr\<close>, which escapes surrogates.
  The lines of the scanner hold the address given on the command line, a port number and
  a label of the port table, and those of the lookup's start and of its exception handler
  hold the address and the message of an exception.
\<close>

definition is_surrogate :: "nat \<Rightarrow> bool" where
  "is_surrogate c \<longleftrightarrow> 0xD800 \<le> c \<and> c \<le> 0xDFFF"

fun printable_json :: "json \<Rightarrow> bool" where
  "printable_json (JStr s) = (\<not> list_ex is_surrogate s)"
| "printable_json v = True"

fun printable :: "console \<Rightarrow> bool" where
  "printable (Geo_pais v) = printable_json v"
| "printable (Geo_ciudad v) = printable_json v"
| "printable (Geo_isp v) = printable_json v"
| "printable (Geo_error v) = printable_json v"
| "printable line = True"

definition print_line :: "console \<Rightarrow> (console list, unit) io" where
  "print_line line = (if printable line then emit line else raise UnicodeEncodeError)"

subsection \<open>The scanner\<close>

text \<open>
  \<^verbatim>\<open>executor.submit\<close> returns one future for each port, in the order of the table's
  keys; future \<open>i\<close> holds what \<^verbatim>\<open>escan_puerto(ip, puerto)\<close> returned or raised once its
  task has run. The order in which the tasks complete is a parameter, \<open>order\<close>: the
  indices of the futures as they finish.
\<close>

definition futures_done :: "'a list \<Rightarrow> nat list \<Rightarrow> (nat \<rightharpoonup> 'a)" where
  "futures_done tasks order =
     fold (\<lambda>i d. if i < length tasks then d(i \<mapsto> tasks ! i) else d) order Map.empty"

text \<open>
  The loop \<^verbatim>\<open>for future in futures\<close>. \<^verbatim>\<open>future.result()\<close> waits for the future: on
  one that never completes the loop does not return (\<open>None\<close>); it raises again what the
  task raised.
\<close>

fun collect_loop ::
  "bool \<Rightarrow> (nat \<rightharpoonup> pyexc + port_result option) \<Rightarrow> nat list
     \<Rightarrow> port_result list \<times> console list
     \<Rightarrow> ((pyexc + port_result list) \<times> console list) option" where
  "collect_loop verbose done [] (puertos_abiertos, out) = Some (Inr puertos_abiertos, out)"
| "collect_loop verbose done (future # futures) (puertos_abiertos, out) =
     (case done future of
        None \<Rightarrow> None
      | Some (Inl e) \<Rightarrow> Some (Inl e, out)
      | Some (Inr None) \<Rightarrow> collect_loop verbose done futures (puertos_abiertos, out)
      | Some (Inr (Some resultado)) \<Rightarrow>
          collect_loop verbose done futures
            (puertos_abiertos @ [resultado],
             if verbose then out @ [Port_open (puerto resultado) (servicio resultado)]
             else out))"

definition escanear_puertos_comunes ::
  "net \<Rightarrow> nat list \<Rightarrow> string \<Rightarrow> bool \<Rightarrow> ((pyexc + port_result list) \<times> console list) option" where
  "escanear_puertos_comunes nw order ip verbose =
     (let puertos_a_escanear = puertos_keys;
          tasks = map (\<lambda>p. probe_outcome nw ip p 1) puertos_a_escanear;
          done = futures_done tasks order
      in case collect_loop verbose done [0..<length tasks] ([], [Scan_start ip]) of
           None \<Rightarrow> None
         | Some (Inl e, out) \<Rightarrow> Some (Inl e, out)
         | Some (Inr puertos_abiertos, out) \<Rightarrow>
             Some (Inr puertos_abiertos, out @ [Open_count (length puertos_abiertos)]))"

text \<open>Every submitted task completes.\<close>

definition all_complete :: "nat list \<Rightarrow> bool" where
  "all_complete order \<longleftrightarrow> list_all (\<lambda>i. i \<in> set order) [0..<length puertos_keys]"

text \<open>The open ports in table order: what each port's probe returns, where it returns a result.\<close>

definition probe_result :: "net \<Rightarrow> string \<Rightarrow> int \<Rightarrow> port_result option" where
  "probe_result nw ip p = (case probe_outcome nw ip p 1 of Inl e \<Rightarrow> None | Inr r \<Rightarrow> r)"

subsection \<open>The geolocation lookup\<close>

text \<open>
  \<^verbatim>\<open>requests.get(url, timeout=5)\<close> raises or returns a response, whose \<^verbatim>\<open>json()\<close>
  raises or returns the decoded body. \<^verbatim>\<open>data.get(key)\<close> is defined on a dictionary
  only; on any other value the attribute lookup raises.
\<close>

datatype response = Response "pyexc + json"

type_synonym web = "string \<Rightarrow> pyexc + response"

definition requests_get :: "web \<Rightarrow> string \<Rightarrow> ('s, response) io" where
  "requests_get w url = (case w url of Inl e \<Rightarrow> raise e | Inr r \<Rightarrow> ret r)"

fun response_json :: "response \<Rightarrow> ('s, json) io" where
  "response_json (Response (Inl e)) = raise e"
| "response_json (Response (Inr d)) = ret d"

fun dict_get_default :: "json \<Rightarrow> string \<Rightarrow> json \<Rightarrow> ('s, json) io" where
  "dict_get_default (JDict kvs) k dflt =
     ret (case map_of kvs (ascii k) of None \<Rightarrow> dflt | Some v \<Rightarrow> v)"
| "dict_get_default _ k dflt = raise AttributeError"

definition dict_get :: "json \<Rightarrow> string \<Rightarrow> ('s, json) io" where
  "dict_get d k = dict_get_default d k JNull"

record geo_result =
  Ip :: json
  Pais :: json
  Region :: json
  Ciudad :: json
  Latitud :: json
  Longitud :: json
  Isp :: json
  Organizacion :: json

definition geo_try :: "web \<Rightarrow> string \<Rightarrow> bool \<Rightarrow> (console list, geo_result option) io" where
  "geo_try w ip verbose =
     bind_io (requests_get w (''http://ip-api.com/json/'' @ ip)) (\<lambda>response.
     bind_io (response_json response) (\<lambda>data.
     bind_io (dict_get data ''status'') (\<lambda>status.
     if status = JStr (ascii ''success'') then
       bind_io (dict_get data ''query'') (\<lambda>v_query.
       bind_io (dict_get data ''country'') (\<lambda>v_country.
       bind_io (dict_get data ''regionName'') (\<lambda>v_region.
       bind_io (dict_get data ''city'') (\<lambda>v_city.
       bind_io (dict_get data ''lat'') (\<lambda>v_lat.
       bind_io (dict_get data ''lon'') (\<lambda>v_lon.
       bind_io (dict_get data ''isp'') (\<lambda>v_isp.
       bind_io (dict_get data ''org'') (\<lambda>v_org.
       bind_io (ret \<lparr>Ip = v_query, Pais = v_country, Region = v_region, Ciudad = v_city,
                       Latitud = v_lat, Longitud = v_lon, Isp = v_isp,
                       Organizacion = v_org\<rparr>) (\<lambda>resultado.
       bind_io (print_line Geo_ok) (\<lambda>_.
       bind_io (if verbose then
                  bind_io (print_line (Geo_pais (Pais resultado))) (\<lambda>_.
                  bind_io (print_line (Geo_ciudad (Ciudad resultado))) (\<lambda>_.
                  print_line (Geo_isp (Isp resultado))))
                else ret ()) (\<lambda>_.
       ret (Some resultado))))))))))))
     else
       bind_io (dict_get_default data ''message'' (JStr (ascii ''desconocido''))) (\<lambda>message.
       bind_io (print_line (Geo_error message)) (\<lambda>_.
       ret None)))))"

definition geo_ip :: "web \<Rightarrow> string \<Rightarrow> bool \<Rightarrow> (console list, geo_result option) io" where
  "geo_ip w ip verbose =
     bind_io (print_line (Geo_start ip)) (\<lambda>_.
     try_except_Exception (geo_try w ip verbose)
       (\<lambda>e. bind_io (print_line (Geo_exception e)) (\<lambda>_. ret None)))"

subsection \<open>Derived notions used in the statements\<close>

text \<open>
  The calls the banner phase makes, as far as it gets: each call is made only when the
  ones before it returned.
\<close>

definition banner_events :: "endpoint \<Rightarrow> string \<Rightarrow> int \<Rightarrow> event list" where
  "banner_events ep ip p =
     (if socket_r ep Banner_sock \<noteq> None then []
      else [Created Banner_sock, Settimeout Banner_sock 2, Connect Banner_sock ip p] @
        (if connect_r ep \<noteq> None then []
         else Send Banner_sock probe_payload #
           (if isl (send_r ep) then []
            else Recv Banner_sock 1024 #
              (if isl (recv_r ep) then [] else [Closed Banner_sock]))))"

text \<open>The results of the probes that return one, in the order of the table's keys.\<close>

definition open_results :: "net \<Rightarrow> string \<Rightarrow> port_result list" where
  "open_results nw ip = List.map_filter (probe_result nw ip) puertos_keys"

subsection \<open>Concrete networks\<close>

text \<open>
  A port that refuses the connection (\<^verbatim>\<open>connect_ex\<close> returns \<^verbatim>\<open>ECONNREFUSED\<close>), a host
  name that does not resolve (\<^verbatim>\<open>connect_ex\<close> raises), a web server that answers the
  probe, a service that accepts the connection and then stays silent until the read times
  out, a server whose answer is a hundred two-byte characters, and a port that accepts the
  first connection and refuses the second.
\<close>

definition refused_endpoint :: endpoint where
  "refused_endpoint =
     \<lparr>socket_r = (\<lambda>s. None), connect_ex_r = Inr 111, connect_r = Some OSError,
      send_r = Inl OSError, recv_r = Inl OSError\<rparr>"

definition unresolved_endpoint :: endpoint where
  "unresolved_endpoint =
     \<lparr>socket_r = (\<lambda>s. None), connect_ex_r = Inl GaiError, connect_r = Some GaiError,
      send_r = Inl OSError, recv_r = Inl OSError\<rparr>"

definition http_endpoint :: endpoint where
  "http_endpoint =
     \<lparr>socket_r = (\<lambda>s. None), connect_ex_r = Inr 0, connect_r = None,
      send_r = Inr 19, recv_r = Inr (map of_char ''HTTP/1.1 200 OK'')\<rparr>"

definition silent_endpoint :: endpoint where
  "silent_endpoint =
     \<lparr>socket_r = (\<lambda>s. None), connect_ex_r = Inr 0, connect_r = None,
      send_r = Inr 19, recv_r = Inl TimeoutError\<rparr>"

definition accent_bytes :: "byte list" where
  "accent_bytes = concat (replicate 100 [0xC3, 0xA9])"

definition accent_endpoint :: endpoint where
  "accent_endpoint =
     \<lparr>socket_r = (\<lambda>s. None), connect_ex_r = Inr 0, connect_r = None,
      send_r = Inr 19, recv_r = Inr accent_bytes\<rparr>"



definition refused_net :: net where
  "refused_net ip p = refused_endpoint"

definition unresolved_net :: net where
  "unresolved_net ip p = unresolved_endpoint"

definition accent_net :: net where
  "accent_net ip p = accent_endpoint"

text \<open>Port 80 answers, port 443 accepts and stays silent, every other port refuses.\<close>

definition web_net :: net where
  "web_net ip p =
     (if p = 80 then http_endpoint else if p = 443 then silent_endpoint else refused_endpoint)"

text \<open>Two completion orders of the 23 futures: as submitted, and the other way round.\<close>

definition order_fifo :: "nat list" where
  "order_fifo = [0..<23]"

definition order_lifo :: "nat list" where
  "order_lifo = rev [0..<23]"

definition geo_answer :: json where
  "geo_answer =
     JDict [(ascii ''status'', JStr (ascii ''success'')),
            (ascii ''country'', JStr (ascii ''Mexico'')),
            (ascii ''query'', JStr (ascii ''10.0.0.1''))]"

definition geo_web :: web where
  "geo_web url = Inr (Response (Inr geo_answer))"

text \<open>
  A successful answer whose country is the one-character string U+D800, as the JSON text
  \<^verbatim>\<open>{"status": "success", "country": "\ud800"}\<close> decodes to.
\<close>

definition surrogate_answer :: json where
  "surrogate_answer =
     JDict [(ascii ''status'', JStr (ascii ''success'')),
            (ascii ''country'', JStr [0xD800])]"

definition surrogate_web :: web where
  "surrogate_web url = Inr (Response (Inr surrogate_answer))"

section \<open>Properties\<close>

subsection \<open>Running the monad\<close>

lemmas io_defs = ret_def raise_def bind_io_def try_except_def emit_def

lemmas sock_defs = socket_new_def settimeout_def timeout_max_def sock_connect_ex_def
  sock_connect_def
  sock_send_def sock_recv_def sock_close_def

subsection \<open>The probe, run\<close>

lemma banner_try_run:
  assumes "0 \<le> p" "p \<le> 65535"
  shows "banner_try ep ip p tr =
     (if banner_read_ok ep then Inr (take 100 (utf8_decode_ignore (received ep)))
      else Inl (case socket_r ep Banner_sock of Some e \<Rightarrow> e | None \<Rightarrow>
             (case connect_r ep of Some e \<Rightarrow> e | None \<Rightarrow>
             (case send_r ep of Inl e \<Rightarrow> e | Inr n \<Rightarrow> projl (recv_r ep)))),
      tr @ banner_events ep ip p)"
  using assms
  by (cases "socket_r ep Banner_sock"; cases "connect_r ep"; cases "send_r ep"; cases "recv_r ep")
     (simp_all add: banner_try_def io_defs sock_defs banner_read_ok_def received_def
        banner_events_def)

lemma escan_puerto_open:
  assumes "connect_succeeds nw ip p t"
  shows "escan_puerto nw ip p t tr =
     (Inr (Some \<lparr>puerto = p, estado = ''abierto'', servicio = servicio_de p,
                 banner = (if banner_read_ok (nw ip p)
                           then take 100 (utf8_decode_ignore (received (nw ip p)))
                           else no_disponible)\<rparr>),
      tr @ [Created Sock, Settimeout Sock t, Connect_ex Sock ip p, Closed Sock]
         @ banner_events (nw ip p) ip p)"
  using assms
  by (simp add: escan_puerto_def escan_try_def connect_succeeds_def timeout_max_def io_defs
      socket_new_def settimeout_def sock_connect_ex_def sock_close_def banner_try_run)

lemma escan_puerto_closed:
  assumes "\<not> connect_succeeds nw ip p t"
  shows "fst (escan_puerto nw ip p t tr) = Inr None"
  using assms
  by (cases "socket_r (nw ip p) Sock"; cases "connect_ex_r (nw ip p)")
     (auto simp add: escan_puerto_def escan_try_def connect_succeeds_def timeout_max_def io_defs
      socket_new_def settimeout_def sock_connect_ex_def sock_close_def)

lemma probe_outcome_eq:
  "probe_outcome nw ip p t =
     Inr (if connect_succeeds nw ip p t
          then Some \<lparr>puerto = p, estado = ''abierto'', servicio = servicio_de p,
                 banner = (if banner_read_ok (nw ip p)
                           then take 100 (utf8_decode_ignore (received (nw ip p)))
                           else no_disponible)\<rparr>
          else None)"
  using escan_puerto_closed[of nw ip p t "[]"]
  by (simp add: probe_outcome_def escan_puerto_open)

lemma puertos_keys_eq:
  "puertos_keys =
     [21, 22, 23, 25, 53, 80, 110, 111, 135, 139, 143, 443, 445, 993, 995, 1723, 3306, 3389,
      5432, 5900, 6379, 8080, 8443]"
  by (simp add: puertos_keys_def PUERTOS_COMUNES_def)

lemma puertos_keys_sorted: "sorted_wrt (<) puertos_keys"
  by (simp add: puertos_keys_eq)

lemma puertos_keys_distinct: "distinct puertos_keys"
  using puertos_keys_sorted strict_sorted_iff by blast

lemma servicio_de_table: "(p, s) \<in> set PUERTOS_COMUNES \<Longrightarrow> servicio_de p = s"
  using puertos_keys_distinct by (simp add: servicio_de_def puertos_keys_def)

lemma servicio_de_fallback: "p \<notin> set puertos_keys \<Longrightarrow> servicio_de p = ''desconocido''"
  by (simp add: servicio_de_def puertos_keys_def map_of_eq_None_iff[THEN iffD2])

subsection \<open>The port table\<close>

text \<open>
  Claim C5, as stated: the port table has exactly 21 entries. It does not: the dictionary
  literal has 23 items.
\<close>

theorem PUERTOS_COMUNES_not_21_entries: "length PUERTOS_COMUNES \<noteq> 21"
  by (simp add: PUERTOS_COMUNES_def)

text \<open>
  Claim C5, amended: the port table has exactly 23 entries, namely the ports 21, 22, 23,
  25, 53, 80, 110, 111, 135, 139, 143, 443, 445, 993, 995, 1723, 3306, 3389, 5432, 5900,
  6379, 8080 and 8443; the keys are pairwise different, positive and at most 65535.
\<close>

theorem PUERTOS_COMUNES_23_entries:
  "length PUERTOS_COMUNES = 23
   \<and> map fst PUERTOS_COMUNES =
       [21, 22, 23, 25, 53, 80, 110, 111, 135, 139, 143, 443, 445, 993, 995, 1723, 3306, 3389,
        5432, 5900, 6379, 8080, 8443]
   \<and> distinct (map fst PUERTOS_COMUNES)
   \<and> list_all (\<lambda>p. 0 < p \<and> p \<le> 65535) (map fst PUERTOS_COMUNES)"
  by (simp add: PUERTOS_COMUNES_def)

subsection \<open>The probe's result\<close>

text \<open>
  Claim C1: whenever the first connect does not succeed (the socket cannot be created, the
  timeout or the port is rejected, \<^verbatim>\<open>connect_ex\<close> raises or returns a non-zero code), the
  probe returns \<^verbatim>\<open>None\<close>. The probe never raises, and what it returns is either \<^verbatim>\<open>None\<close>
  or a result whose state is \<^verbatim>\<open>'abierto'\<close>: there is no other outcome.
\<close>

theorem escan_puerto_no_result:
  "(\<not> connect_succeeds nw ip p timeout \<longrightarrow> probe_outcome nw ip p timeout = Inr None)
   \<and> (case probe_outcome nw ip p timeout of
        Inl e \<Rightarrow> False
      | Inr None \<Rightarrow> True
      | Inr (Some r) \<Rightarrow> estado r = ''abierto'')"
  by (simp add: probe_outcome_eq)

theorem escan_puerto_no_result_witness:
  "\<not> connect_succeeds refused_net ''10.0.0.1'' 80 1
   \<and> probe_outcome refused_net ''10.0.0.1'' 80 1 = Inr None
   \<and> \<not> connect_succeeds unresolved_net ''no.such.host'' 22 1
   \<and> probe_outcome unresolved_net ''no.such.host'' 22 1 = Inr None"
  using escan_puerto_no_result [of refused_net "''10.0.0.1''" 80 1]
    escan_puerto_no_result [of unresolved_net "''no.such.host''" 22 1]
  by (simp add: connect_succeeds_def timeout_max_def refused_net_def refused_endpoint_def
      unresolved_net_def unresolved_endpoint_def)

text \<open>
  Claim C3: when the first connect succeeds the probe returns a result for that port with
  state \<^verbatim>\<open>'abierto'\<close> and the service the table gives for the port, \<^verbatim>\<open>'desconocido'\<close> for
  a port that is not in the table. A failure anywhere in the banner phase leaves the
  result in place and only sets its banner to \<^verbatim>\<open>'No disponible'\<close>.
\<close>

theorem escan_puerto_open_result:
  assumes "connect_succeeds nw ip p timeout"
  shows "(\<exists>b. probe_outcome nw ip p timeout =
            Inr (Some \<lparr>puerto = p, estado = ''abierto'', servicio = servicio_de p, banner = b\<rparr>)
          \<and> (\<not> banner_read_ok (nw ip p) \<longrightarrow> b = no_disponible))
       \<and> (\<forall>s. (p, s) \<in> set PUERTOS_COMUNES \<longrightarrow> servicio_de p = s)
       \<and> (p \<notin> set puertos_keys \<longrightarrow> servicio_de p = ''desconocido'')"
  using assms by (simp add: probe_outcome_eq servicio_de_table servicio_de_fallback)

theorem escan_puerto_open_result_witness:
  "connect_succeeds web_net ''10.0.0.1'' 443 1
   \<and> \<not> banner_read_ok (web_net ''10.0.0.1'' 443)
   \<and> (443, ''HTTPS'') \<in> set PUERTOS_COMUNES
   \<and> probe_outcome web_net ''10.0.0.1'' 443 1 =
       Inr (Some \<lparr>puerto = 443, estado = ''abierto'', servicio = ''HTTPS'',
                  banner = no_disponible\<rparr>)
   \<and> connect_succeeds accent_net ''10.0.0.1'' 8000 1
   \<and> 8000 \<notin> set puertos_keys
   \<and> servicio_de 8000 = ''desconocido''"
proof -
  have c: "connect_succeeds web_net ''10.0.0.1'' 443 1"
    by (simp add: connect_succeeds_def timeout_max_def web_net_def silent_endpoint_def)
  have b: "\<not> banner_read_ok (web_net ''10.0.0.1'' 443)"
    by (simp add: banner_read_ok_def web_net_def silent_endpoint_def)
  have t: "(443, ''HTTPS'') \<in> set PUERTOS_COMUNES"
    by (simp add: PUERTOS_COMUNES_def)
  have c': "connect_succeeds accent_net ''10.0.0.1'' 8000 1"
    by (simp add: connect_succeeds_def timeout_max_def accent_net_def accent_endpoint_def)
  have n: "8000 \<notin> set puertos_keys"
    by (simp add: puertos_keys_eq)
  show ?thesis
    using escan_puerto_open_result [OF c] escan_puerto_open_result [OF c'] c b t c' n
    by auto
qed

subsection \<open>The banner\<close>

lemma decode_accent_step:
  "utf8_decode_ignore (0xC3 # 0xA9 # bs) = 233 # utf8_decode_ignore bs"
proof (cases bs)
  case Nil
  then show ?thesis by (simp add: is_cont_def cp2_def)
next
  case (Cons x xs)
  then show ?thesis by (cases xs) (simp_all add: is_cont_def cp2_def)
qed

lemma decode_accents:
  "utf8_decode_ignore (concat (replicate n [0xC3, 0xA9])) = replicate n 233"
  by (induction n) (simp_all add: decode_accent_step)

lemma take_accents:
  "take (2 * k) (concat (replicate (k + m) [a, b])) = concat (replicate k [a, b])"
  by (induction k) simp_all

lemma utf8_size_accents: "utf8_size (replicate n 233) = 2 * n"
  by (induction n) (simp_all add: utf8_size_def)

text \<open>
  Claim C6, as stated: the stored banner is truncated to 100 bytes. It is not. A server
  that answers with a hundred two-byte characters (200 bytes) gets a banner of a hundred
  characters, which is 200 bytes in UTF-8; cutting the received bytes at 100 and decoding
  would give fifty characters.
\<close>

theorem banner_exceeds_100_bytes:
  "probe_outcome accent_net ''10.0.0.1'' 80 1 =
     Inr (Some \<lparr>puerto = 80, estado = ''abierto'', servicio = ''HTTP'',
                banner = replicate 100 233\<rparr>)
   \<and> utf8_size (replicate 100 233) = 200
   \<and> utf8_decode_ignore (take 100 accent_bytes) = replicate 50 233"
proof -
  have c: "connect_succeeds accent_net ''10.0.0.1'' 80 1"
    by (simp add: connect_succeeds_def timeout_max_def accent_net_def accent_endpoint_def)
  have b: "banner_read_ok (accent_net ''10.0.0.1'' 80)"
    by (simp add: banner_read_ok_def accent_net_def accent_endpoint_def)
  have l: "length accent_bytes = 200"
    by (simp add: accent_bytes_def length_concat sum_list_replicate)
  have r: "received (accent_net ''10.0.0.1'' 80) = accent_bytes"
    by (simp add: received_def accent_net_def accent_endpoint_def l)
  have s: "servicio_de 80 = ''HTTP''"
    by (rule servicio_de_table) (simp add: PUERTOS_COMUNES_def)
  have t: "take 100 accent_bytes = concat (replicate 50 [0xC3, 0xA9])"
    using take_accents [of 50 50 "0xC3 :: byte" "0xA9"] by (simp add: accent_bytes_def)
  show ?thesis
    by (simp add: probe_outcome_eq c b r s t decode_accents utf8_size_accents)
       (simp add: accent_bytes_def decode_accents)
qed

text \<open>
  Claim C6, amended: after a successful banner read the stored banner is the data
  received (at most 1024 bytes), decoded as UTF-8 with ill-formed sequences dropped, cut
  to its first 100 characters (code points); the cut counts characters, not bytes.
\<close>

theorem banner_first_100_characters:
  assumes "connect_succeeds nw ip p timeout"
    and "banner_read_ok (nw ip p)"
    and "recv_r (nw ip p) = Inr data"
  shows "\<exists>r. probe_outcome nw ip p timeout = Inr (Some r)
           \<and> banner r = take 100 (utf8_decode_ignore (take 1024 data))
           \<and> length (take 1024 data) \<le> 1024
           \<and> length (banner r) \<le> 100"
  using assms by (simp add: probe_outcome_eq received_def)

theorem banner_first_100_characters_witness:
  "connect_succeeds web_net ''10.0.0.1'' 80 1
   \<and> banner_read_ok (web_net ''10.0.0.1'' 80)
   \<and> recv_r (web_net ''10.0.0.1'' 80) = Inr (map of_char ''HTTP/1.1 200 OK'')
   \<and> (\<exists>r. probe_outcome web_net ''10.0.0.1'' 80 1 = Inr (Some r)
          \<and> banner r = ascii ''HTTP/1.1 200 OK'')"
proof -
  have c: "connect_succeeds web_net ''10.0.0.1'' 80 1"
    by (simp add: connect_succeeds_def timeout_max_def web_net_def http_endpoint_def)
  have b: "banner_read_ok (web_net ''10.0.0.1'' 80)"
    by (simp add: banner_read_ok_def web_net_def http_endpoint_def)
  have d: "recv_r (web_net ''10.0.0.1'' 80) = Inr (map of_char ''HTTP/1.1 200 OK'')"
    by (simp add: web_net_def http_endpoint_def)
  have "take 100 (utf8_decode_ignore (take 1024 (map of_char ''HTTP/1.1 200 OK''))) = ascii ''HTTP/1.1 200 OK''"
    by (simp add: ascii_def)
  with banner_first_100_characters [OF c b d] c b d show ?thesis
    by auto
qed

subsection \<open>The calls the probe makes\<close>




text \<open>
  Claim C8 says that both sockets are closed on every exit path. The probe closes them on
  the paths where no call raised only. Where the banner read times out, the result is
  returned with \<^verbatim>\<open>banner_sock\<close> created and never closed; where \<^verbatim>\<open>connect_ex\<close> raises,
  \<^verbatim>\<open>None\<close> is returned with \<^verbatim>\<open>sock\<close> created and never closed.
\<close>

theorem sockets_left_open:
  "probe_outcome web_net ''10.0.0.1'' 443 1 =
     Inr (Some \<lparr>puerto = 443, estado = ''abierto'', servicio = ''HTTPS'',
                banner = no_disponible\<rparr>)
   \<and> probe_trace web_net ''10.0.0.1'' 443 1 =
       [Created Sock, Settimeout Sock 1, Connect_ex Sock ''10.0.0.1'' 443, Closed Sock,
        Created Banner_sock, Settimeout Banner_sock 2, Connect Banner_sock ''10.0.0.1'' 443,
        Send Banner_sock probe_payload, Recv Banner_sock 1024]
   \<and> left_open (probe_trace web_net ''10.0.0.1'' 443 1) = [Banner_sock]
   \<and> probe_outcome unresolved_net ''no.such.host'' 22 1 = Inr None
   \<and> probe_trace unresolved_net ''no.such.host'' 22 1 =
       [Created Sock, Settimeout Sock 1, Connect_ex Sock ''no.such.host'' 22]
   \<and> left_open (probe_trace unresolved_net ''no.such.host'' 22 1) = [Sock]"
proof -
  have c: "connect_succeeds web_net ''10.0.0.1'' 443 1"
    by (simp add: connect_succeeds_def timeout_max_def web_net_def silent_endpoint_def)
  have s: "servicio_de 443 = ''HTTPS''"
    by (rule servicio_de_table) (simp add: PUERTOS_COMUNES_def)
  have t1: "probe_trace web_net ''10.0.0.1'' 443 1 =
       [Created Sock, Settimeout Sock 1, Connect_ex Sock ''10.0.0.1'' 443, Closed Sock,
        Created Banner_sock, Settimeout Banner_sock 2, Connect Banner_sock ''10.0.0.1'' 443,
        Send Banner_sock probe_payload, Recv Banner_sock 1024]"
    by (simp add: probe_trace_def escan_puerto_open [OF c] banner_events_def web_net_def
        silent_endpoint_def)
  have o1: "probe_outcome web_net ''10.0.0.1'' 443 1 =
     Inr (Some \<lparr>puerto = 443, estado = ''abierto'', servicio = ''HTTPS'',
                banner = no_disponible\<rparr>)"
    by (simp add: probe_outcome_eq c s banner_read_ok_def web_net_def silent_endpoint_def)
  have nc: "\<not> connect_succeeds unresolved_net ''no.such.host'' 22 1"
    by (simp add: connect_succeeds_def timeout_max_def unresolved_net_def unresolved_endpoint_def)
  have t2: "probe_trace unresolved_net ''no.such.host'' 22 1 =
       [Created Sock, Settimeout Sock 1, Connect_ex Sock ''no.such.host'' 22]"
    by (simp add: probe_trace_def escan_puerto_def escan_try_def io_defs sock_defs
        unresolved_net_def unresolved_endpoint_def)
  have o2: "probe_outcome unresolved_net ''no.such.host'' 22 1 = Inr None"
    by (simp add: probe_outcome_eq nc)
  show ?thesis
    by (simp add: o1 o2 t1 t2 left_open_def)
qed

subsection \<open>The scanner, run\<close>

lemma probe_outcome_result: "probe_outcome nw ip p 1 = Inr (probe_result nw ip p)"
  by (simp add: probe_result_def probe_outcome_eq)

lemma probe_result_puerto: "probe_result nw ip p = Some r \<Longrightarrow> puerto r = p"
  by (auto simp add: probe_result_def probe_outcome_eq split: if_splits)

lemma fold_done:
  "fold (\<lambda>i d. if i < length tasks then d(i \<mapsto> tasks ! i) else d) order d0 i =
     (if i \<in> set order \<and> i < length tasks then Some (tasks ! i) else d0 i)"
  by (induction order arbitrary: d0) auto

lemma futures_done_at:
  "futures_done tasks order i =
     (if i \<in> set order \<and> i < length tasks then Some (tasks ! i) else None)"
  by (simp add: futures_done_def fold_done)

lemma collect_loop_all:
  assumes "\<forall>f\<in>set fs. done f = Some (Inr (g f))"
  shows "collect_loop v done fs (ab, out) =
     Some (Inr (ab @ List.map_filter g fs),
           out @ (if v then map (\<lambda>r. Port_open (puerto r) (servicio r)) (List.map_filter g fs)
                  else []))"
  using assms
proof (induction fs arbitrary: ab out)
  case Nil
  then show ?case by (simp add: List.map_filter_simps)
next
  case (Cons f fs)
  then show ?case by (cases "g f") (simp_all add: List.map_filter_simps)
qed

lemma map_filter_nth:
  "List.map_filter (\<lambda>i. g (xs ! i)) [0..<length xs] = List.map_filter g xs"
proof -
  have "List.map_filter g (map (\<lambda>i. xs ! i) [0..<length xs]) =
        List.map_filter (\<lambda>i. g (xs ! i)) [0..<length xs]"
    by (simp add: List.map_filter_def filter_map comp_def)
  then show ?thesis by (simp add: map_nth)
qed

lemma escanear_run:
  assumes "all_complete order"
  shows "escanear_puertos_comunes nw order ip verbose =
     Some (Inr (open_results nw ip),
           [Scan_start ip]
           @ (if verbose then map (\<lambda>r. Port_open (puerto r) (servicio r)) (open_results nw ip)
              else [])
           @ [Open_count (length (open_results nw ip))])"
proof -
  let ?tasks = "map (\<lambda>p. probe_outcome nw ip p 1) puertos_keys"
  let ?g = "\<lambda>i. probe_result nw ip (puertos_keys ! i)"
  have "\<forall>f\<in>set [0..<length ?tasks]. futures_done ?tasks order f = Some (Inr (?g f))"
    using assms
    by (auto simp add: all_complete_def list_all_iff futures_done_at probe_outcome_result)
  then have "collect_loop verbose (futures_done ?tasks order) [0..<length ?tasks]
       ([], [Scan_start ip]) =
     Some (Inr ([] @ List.map_filter ?g [0..<length ?tasks]),
           [Scan_start ip]
           @ (if verbose
              then map (\<lambda>r. Port_open (puerto r) (servicio r))
                     (List.map_filter ?g [0..<length ?tasks])
              else []))"
    by (rule collect_loop_all)
  moreover have "List.map_filter ?g [0..<length ?tasks] = open_results nw ip"
    by (simp add: open_results_def map_filter_nth)
  ultimately show ?thesis
    by (simp add: escanear_puertos_comunes_def Let_def)
qed

lemma map_filter_ports:
  "map puerto (List.map_filter (probe_result nw ip) ps) =
     filter (\<lambda>p. probe_result nw ip p \<noteq> None) ps"
  by (induction ps)
     (auto simp add: List.map_filter_simps probe_result_puerto split: option.splits)

lemma open_results_ports:
  "map puerto (open_results nw ip) = filter (\<lambda>p. probe_result nw ip p \<noteq> None) puertos_keys"
  by (simp add: open_results_def map_filter_ports)

lemma set_map_filter: "r \<in> set (List.map_filter f xs) \<longleftrightarrow> (\<exists>x\<in>set xs. f x = Some r)"
  by (induction xs) (auto simp add: List.map_filter_simps split: option.splits)

lemma set_open_results:
  "r \<in> set (open_results nw ip) \<longleftrightarrow> (\<exists>p\<in>set puertos_keys. probe_result nw ip p = Some r)"
  by (simp add: open_results_def set_map_filter)

lemma open_results_ports_distinct: "distinct (map puerto (open_results nw ip))"
  by (simp add: open_results_ports puertos_keys_distinct)

lemma open_results_ports_sorted: "sorted_wrt (<) (map puerto (open_results nw ip))"
  by (simp add: open_results_ports puertos_keys_sorted sorted_wrt_filter)

lemma count_list_distinct: "distinct xs \<Longrightarrow> x \<in> set xs \<Longrightarrow> count_list xs x = 1"
  by (induction xs) auto

lemma open_results_once:
  assumes "r \<in> set (open_results nw ip)"
  shows "count_list (open_results nw ip) r = 1"
proof -
  have "distinct (open_results nw ip)"
    using open_results_ports_distinct distinct_map by blast
  with assms show ?thesis
    by (simp add: count_list_distinct)
qed

lemma all_complete_fifo: "all_complete order_fifo"
  by (simp add: all_complete_def order_fifo_def puertos_keys_eq list_all_iff)

lemma all_complete_lifo: "all_complete order_lifo"
  by (simp add: all_complete_def order_lifo_def puertos_keys_eq list_all_iff)

lemma web_net_open_results:
  "open_results web_net ''10.0.0.1'' =
     [\<lparr>puerto = 80, estado = ''abierto'', servicio = ''HTTP'',
       banner = ascii ''HTTP/1.1 200 OK''\<rparr>,
      \<lparr>puerto = 443, estado = ''abierto'', servicio = ''HTTPS'', banner = no_disponible\<rparr>]"
proof -
  have s: "servicio_de 80 = ''HTTP''" "servicio_de 443 = ''HTTPS''"
    by (rule servicio_de_table, simp add: PUERTOS_COMUNES_def)+
  have closed: "probe_result web_net ''10.0.0.1'' p = None" if "p \<noteq> 80" "p \<noteq> 443" for p
    using that
    by (simp add: probe_result_def probe_outcome_eq connect_succeeds_def timeout_max_def web_net_def
        refused_endpoint_def)
  have p80: "probe_result web_net ''10.0.0.1'' 80 =
      Some \<lparr>puerto = 80, estado = ''abierto'', servicio = ''HTTP'',
            banner = ascii ''HTTP/1.1 200 OK''\<rparr>"
    by (simp add: probe_result_def probe_outcome_eq connect_succeeds_def timeout_max_def web_net_def
        http_endpoint_def banner_read_ok_def received_def s ascii_def)
  have p443: "probe_result web_net ''10.0.0.1'' 443 =
      Some \<lparr>puerto = 443, estado = ''abierto'', servicio = ''HTTPS'', banner = no_disponible\<rparr>"
    by (simp add: probe_result_def probe_outcome_eq connect_succeeds_def timeout_max_def web_net_def
        silent_endpoint_def banner_read_ok_def s)
  show ?thesis
    by (simp add: open_results_def puertos_keys_eq List.map_filter_simps closed p80 p443)
qed

lemma collect_loop_verbose:
  "map_option fst (collect_loop True done fs (ab, out1)) =
   map_option fst (collect_loop False done fs (ab, out2))"
  by (induction fs arbitrary: ab out1 out2) (auto split: option.splits sum.splits)

lemma escanear_data:
  "map_option fst (escanear_puertos_comunes nw order ip verbose) =
   map_option fst
     (collect_loop verbose
        (futures_done (map (\<lambda>p. probe_outcome nw ip p 1) puertos_keys) order)
        [0..<length puertos_keys] ([], [Scan_start ip]))"
  by (simp add: escanear_puertos_comunes_def Let_def split: option.splits sum.splits prod.splits)

lemma escanear_verbose_data:
  "map_option fst (escanear_puertos_comunes nw order ip True) =
   map_option fst (escanear_puertos_comunes nw order ip False)"
  by (simp add: escanear_data collect_loop_verbose [of _ _ _ _ "[Scan_start ip]"])

lemma geo_ip_same_unless_unprintable:
  "fst (geo_ip w ip True out) = fst (geo_ip w ip False out)
   \<or> (fst (geo_ip w ip True out) = Inr None
      \<and> (\<exists>r. fst (geo_ip w ip False out) = Inr (Some r)
             \<and> \<not> (printable_json (Pais r) \<and> printable_json (Ciudad r)
                   \<and> printable_json (Isp r))))"
proof (cases "w (''http://ip-api.com/json/'' @ ip)")
  case (Inl e)
  then show ?thesis
    by (simp add: geo_ip_def geo_try_def requests_get_def io_defs print_line_def
        try_except_Exception_def)
next
  case (Inr response)
  then show ?thesis
  proof (cases response)
    case (Response body)
    show ?thesis
    proof (cases body)
      case (Inl e)
      with Inr Response show ?thesis
        by (simp add: geo_ip_def geo_try_def requests_get_def io_defs print_line_def
            try_except_Exception_def)
    next
      case body: (Inr data)
      show ?thesis
        using Inr Response body
        by (cases data)
           (simp_all add: geo_ip_def geo_try_def requests_get_def dict_get_def io_defs
              print_line_def try_except_Exception_def)
    qed
  qed
qed

text \<open>
  The scanner returns only when every submitted probe has completed: a future that never
  completes blocks the loop.
\<close>

lemma collect_loop_blocks:
  assumes "\<forall>f\<in>set fs. done f = None \<or> (\<exists>r. done f = Some (Inr r))"
    and "\<exists>f\<in>set fs. done f = None"
  shows "collect_loop v done fs (ab, out) = None"
  using assms
proof (induction fs arbitrary: ab out)
  case Nil
  then show ?case by simp
next
  case (Cons a fs)
  show ?case
  proof (cases "done a")
    case None
    then show ?thesis by simp
  next
    case (Some x)
    with Cons.prems(1) obtain r where r: "done a = Some (Inr r)"
      by auto
    with Cons.prems(2) have ex: "\<exists>f\<in>set fs. done f = None"
      by auto
    from Cons.prems(1) have al: "\<forall>f\<in>set fs. done f = None \<or> (\<exists>r. done f = Some (Inr r))"
      by simp
    show ?thesis
      using r Cons.IH [OF al ex] by (cases r) simp_all
  qed
qed

lemma escanear_waits_for_all:
  assumes "escanear_puertos_comunes nw order ip verbose = Some res"
  shows "all_complete order"
proof (rule ccontr)
  assume "\<not> all_complete order"
  then obtain i where i: "i < length puertos_keys" "i \<notin> set order"
    by (auto simp add: all_complete_def list_all_iff)
  let ?tasks = "map (\<lambda>p. probe_outcome nw ip p 1) puertos_keys"
  have "\<forall>f\<in>set [0..<length ?tasks]. futures_done ?tasks order f = None
      \<or> (\<exists>r. futures_done ?tasks order f = Some (Inr r))"
    by (auto simp add: futures_done_at probe_outcome_result)
  moreover have "\<exists>f\<in>set [0..<length ?tasks]. futures_done ?tasks order f = None"
    using i by (auto simp add: futures_done_at)
  ultimately have "collect_loop verbose (futures_done ?tasks order) [0..<length ?tasks]
      ([], [Scan_start ip]) = None"
    by (rule collect_loop_blocks)
  with assms show False
    by (simp add: escanear_puertos_comunes_def Let_def)
qed

subsection \<open>The scanner's result\<close>

text \<open>
  Claim C2: when every submitted probe completes, the scanner returns a list with one
  entry for each port whose probe returned a result and nothing else: every port named
  in it is a key of the port table, no port is named twice, every entry is what the probe
  of its port returned, and the result of every probe that returned one is in the list
  exactly once.
\<close>

theorem scan_one_entry_per_open_port:
  assumes "all_complete order"
  shows "\<exists>abiertos out.
           escanear_puertos_comunes nw order ip verbose = Some (Inr abiertos, out)
         \<and> set (map puerto abiertos) \<subseteq> set puertos_keys
         \<and> distinct (map puerto abiertos)
         \<and> (\<forall>r\<in>set abiertos. \<exists>p\<in>set puertos_keys.
               puerto r = p \<and> probe_outcome nw ip p 1 = Inr (Some r))
         \<and> (\<forall>p\<in>set puertos_keys. \<forall>r. probe_outcome nw ip p 1 = Inr (Some r) \<longrightarrow>
               count_list abiertos r = 1)"
proof -
  have run: "escanear_puertos_comunes nw order ip verbose =
     Some (Inr (open_results nw ip),
           [Scan_start ip]
           @ (if verbose then map (\<lambda>r. Port_open (puerto r) (servicio r)) (open_results nw ip)
              else [])
           @ [Open_count (length (open_results nw ip))])"
    using assms by (rule escanear_run)
  have sub: "set (map puerto (open_results nw ip)) \<subseteq> set puertos_keys"
    by (auto simp add: open_results_ports)
  have only: "\<forall>r\<in>set (open_results nw ip). \<exists>p\<in>set puertos_keys.
      puerto r = p \<and> probe_outcome nw ip p 1 = Inr (Some r)"
    by (auto simp add: set_open_results probe_outcome_result probe_result_puerto)
  have once: "\<forall>p\<in>set puertos_keys. \<forall>r. probe_outcome nw ip p 1 = Inr (Some r) \<longrightarrow>
      count_list (open_results nw ip) r = 1"
  proof (intro ballI allI impI)
    fix p r
    assume "p \<in> set puertos_keys" and "probe_outcome nw ip p 1 = Inr (Some r)"
    then have "r \<in> set (open_results nw ip)"
      by (auto simp add: set_open_results probe_outcome_result)
    then show "count_list (open_results nw ip) r = 1"
      by (rule open_results_once)
  qed
  from run sub only once open_results_ports_distinct [of nw ip] show ?thesis
    by blast
qed

theorem scan_one_entry_per_open_port_witness:
  "all_complete order_lifo
   \<and> probe_outcome web_net ''10.0.0.1'' 443 1 =
       Inr (Some \<lparr>puerto = 443, estado = ''abierto'', servicio = ''HTTPS'',
                  banner = no_disponible\<rparr>)
   \<and> (\<exists>abiertos out.
         escanear_puertos_comunes web_net order_lifo ''10.0.0.1'' True = Some (Inr abiertos, out)
       \<and> distinct (map puerto abiertos)
       \<and> count_list abiertos
           \<lparr>puerto = 443, estado = ''abierto'', servicio = ''HTTPS'', banner = no_disponible\<rparr>
         = 1)"
proof -
  have k: "443 \<in> set puertos_keys"
    by (simp add: puertos_keys_eq)
  have s: "servicio_de 443 = ''HTTPS''"
    by (rule servicio_de_table) (simp add: PUERTOS_COMUNES_def)
  have o: "probe_outcome web_net ''10.0.0.1'' 443 1 =
       Inr (Some \<lparr>puerto = 443, estado = ''abierto'', servicio = ''HTTPS'',
                  banner = no_disponible\<rparr>)"
    by (simp add: probe_outcome_eq connect_succeeds_def timeout_max_def banner_read_ok_def web_net_def
        silent_endpoint_def s)
  from scan_one_entry_per_open_port [OF all_complete_lifo, of web_net "''10.0.0.1''" True]
    all_complete_lifo k o
  show ?thesis by blast
qed

text \<open>
  Claim C10: the list the scanner returns is in the order of the table's keys, which is
  ascending port number, whatever the order in which the probes complete: two runs that
  differ in the completion order only return the same list and print the same lines.
\<close>

theorem scan_result_in_table_order:
  assumes "all_complete order" and "all_complete order'"
  shows "\<exists>abiertos out.
           escanear_puertos_comunes nw order ip verbose = Some (Inr abiertos, out)
         \<and> escanear_puertos_comunes nw order' ip verbose = Some (Inr abiertos, out)
         \<and> map puerto abiertos = filter (\<lambda>p. probe_result nw ip p \<noteq> None) puertos_keys
         \<and> sorted_wrt (<) (map puerto abiertos)"
  using escanear_run [OF assms(1), of nw ip verbose] escanear_run [OF assms(2), of nw ip verbose]
    open_results_ports [of nw ip] open_results_ports_sorted [of nw ip]
  by simp

theorem scan_result_in_table_order_witness:
  "all_complete order_fifo \<and> all_complete order_lifo \<and> order_fifo \<noteq> order_lifo
   \<and> (\<exists>abiertos out.
         escanear_puertos_comunes web_net order_fifo ''10.0.0.1'' False = Some (Inr abiertos, out)
       \<and> escanear_puertos_comunes web_net order_lifo ''10.0.0.1'' False = Some (Inr abiertos, out)
       \<and> map puerto abiertos = [80, 443])"
proof -
  have "hd order_fifo = 0" and "hd order_lifo = 22"
    by (simp_all add: order_fifo_def order_lifo_def hd_rev upt_rec [of 0])
  then have ne: "order_fifo \<noteq> order_lifo"
    by auto
  have "filter (\<lambda>p. probe_result web_net ''10.0.0.1'' p \<noteq> None) puertos_keys = [80, 443]"
    using open_results_ports [of web_net "''10.0.0.1''", symmetric]
    by (simp add: web_net_open_results)
  with scan_result_in_table_order [OF all_complete_fifo all_complete_lifo,
      of web_net "''10.0.0.1''" False]
    all_complete_fifo all_complete_lifo ne
  show ?thesis by auto
qed

subsection \<open>The verbose flag\<close>

text \<open>
  Claim C9 says that the verbose flag never changes the data returned. For the port scan
  that is so (lemma \<open>escanear_verbose_data\<close>). In \<^verbatim>\<open>geo_ip\<close> the lines printed under the
  flag are inside the \<^verbatim>\<open>try\<close>: when the answer's country cannot be printed, the print
  raises, the handler takes over and the lookup returns \<^verbatim>\<open>None\<close>, where without the flag
  it returns the result. That is the only way the flag changes what \<^verbatim>\<open>geo_ip\<close> returns
  (lemma \<open>geo_ip_same_unless_unprintable\<close>).
\<close>

theorem geo_ip_verbose_loses_result:
  "fst (geo_ip surrogate_web ''10.0.0.1'' True []) = Inr None
   \<and> fst (geo_ip surrogate_web ''10.0.0.1'' False []) =
       Inr (Some \<lparr>Ip = JNull, Pais = JStr [0xD800], Region = JNull, Ciudad = JNull,
                  Latitud = JNull, Longitud = JNull, Isp = JNull, Organizacion = JNull\<rparr>)
   \<and> snd (geo_ip surrogate_web ''10.0.0.1'' True []) =
       [Geo_start ''10.0.0.1'', Geo_ok, Geo_exception UnicodeEncodeError]
   \<and> snd (geo_ip surrogate_web ''10.0.0.1'' False []) = [Geo_start ''10.0.0.1'', Geo_ok]"
  by (simp add: geo_ip_def geo_try_def requests_get_def dict_get_def io_defs print_line_def
      try_except_Exception_def surrogate_web_def surrogate_answer_def ascii_def
      is_surrogate_def)

end
